theory Spec2Isabelle
  imports Main "HOL-Library.Word"
begin

section \<open>Python values\<close>

text \<open>
  A Python \<open>str\<close> is a \<open>string\<close>, one \<open>char\<close> per code point (code points below 256);
  a Python \<open>bytes\<close> object is a list of 8-bit words. The two are different types in
  Python, and they are different constructors of \<open>pyobj\<close> below.
\<close>

type_synonym bytes = "8 word list"

abbreviation CR :: char where "CR \<equiv> CHR 0x0D"
abbreviation LF :: char where "LF \<equiv> CHR 0x0A"

text \<open>
  The exceptions the code can raise or let through. The two \<open>ValueError\<close>s raised by
  \<open>open_stream\<close> itself are kept apart by their message; the ambiguity message is
  formatted with the list of member names, which the constructor carries.
\<close>

datatype error =
    TypeError
  | AttributeError
  | IndexError
  | LookupError
  | ValueError_parse
  | ValueError_step_zero
  | ValueError_empty_zip
  | ValueError_ambiguous_zip "string list"
  | InvalidSchema
  | ConnectionError
  | UnsupportedOperation
  | KeyError
  | OtherError string

section \<open>The line-terminator detector\<close>

definition MAX_SAMPLE_CHUNKSIZE :: nat where
  "MAX_SAMPLE_CHUNKSIZE = 10000"

definition LINE_TERMINATORS :: "string list" where
  "LINE_TERMINATORS = [[CR, LF], [CR], [LF]]"

definition LINE_TERMINATOR_DEFAULT :: string where
  "LINE_TERMINATOR_DEFAULT = [LF]"

text \<open>
  \<open>s.count(sub)\<close> on a Python \<open>str\<close>: the number of non-overlapping occurrences of
  \<open>sub\<close> in \<open>s\<close>, scanning from the left; for the empty pattern it is \<open>len(s) + 1\<close>.
\<close>

function str_count :: "string \<Rightarrow> string \<Rightarrow> nat" where
  "str_count s sub =
     (if sub = [] then length s + 1
      else if length s < length sub then 0
      else if take (length sub) s = sub then 1 + str_count (drop (length sub) s) sub
      else str_count (tl s) sub)"
  by pat_completeness auto
termination
  by (relation "measure (\<lambda>(s, sub). length s)") (auto simp flip: length_greater_0_conv)

declare str_count.simps [simp del]

text \<open>Python's \<open><\<close> on \<open>str\<close>: lexicographic, by code point.\<close>

fun str_lt :: "string \<Rightarrow> string \<Rightarrow> bool" where
  "str_lt [] [] = False"
| "str_lt [] (y # ys) = True"
| "str_lt (x # xs) [] = False"
| "str_lt (x # xs) (y # ys) =
     ((of_char x :: nat) < of_char y \<or> (x = y \<and> str_lt xs ys))"

text \<open>Python's \<open><\<close> on the tuples \<open>(count, length, terminator)\<close>: lexicographic.\<close>

fun option_lt :: "nat \<times> nat \<times> string \<Rightarrow> nat \<times> nat \<times> string \<Rightarrow> bool" where
  "option_lt (c1, l1, t1) (c2, l2, t2) =
     (c1 < c2 \<or> (c1 = c2 \<and> (l1 < l2 \<or> (l1 = l2 \<and> str_lt t1 t2))))"

text \<open>
  \<open>sorted(xs, reverse=True)\<close>: a stable sort into descending order (elements that
  compare equal keep their original order).
\<close>

fun insert_desc :: "nat \<times> nat \<times> string \<Rightarrow> (nat \<times> nat \<times> string) list \<Rightarrow> (nat \<times> nat \<times> string) list" where
  "insert_desc x [] = [x]"
| "insert_desc x (y # ys) = (if option_lt x y then y # insert_desc x ys else x # y # ys)"

definition sorted_reverse :: "(nat \<times> nat \<times> string) list \<Rightarrow> (nat \<times> nat \<times> string) list" where
  "sorted_reverse xs = foldr insert_desc xs []"

text \<open>
  The argument \<open>sample\<close> (and \<open>source\<close> of \<open>open_stream\<close>) is dynamically typed.
  \<open>PyOther\<close> stands for an object with neither a \<open>count\<close> nor a \<open>seekable\<close>
  attribute (a number, say).
\<close>

datatype payload = Bytes_data bytes | Text_data string

datatype io_class = BytesIO | StringIO | BufferedReader | Foreign

text \<open>
  A stream object: what it holds, how many units (bytes of a binary stream, characters of
  a text stream) have been read, whether \<open>seekable()\<close> is true, its class, and its
  \<open>name\<close> attribute where one has been set.
\<close>

record io_stream =
  stream_data :: payload
  stream_pos :: nat
  stream_seekable :: bool
  stream_class :: io_class
  stream_name :: "string option"

datatype pyobj =
    PyNone
  | PyStr string
  | PyBytes bytes
  | PyStream io_stream
  | PyOther

text \<open>
  \<open>detect_line_terminator(sample, default=None)\<close>. \<open>str\<close> and \<open>bytes\<close> both have a
  \<open>count\<close> attribute. \<open>sorted\<close> consumes \<open>map(sample.count, LINE_TERMINATORS)\<close>, so on a
  \<open>bytes\<close> sample the first call is \<open>sample.count("\r\n")\<close> with a \<open>str\<close> argument,
  which raises \<open>TypeError\<close>.
\<close>

definition detect_line_terminator :: "pyobj \<Rightarrow> pyobj \<Rightarrow> error + pyobj" where
  "detect_line_terminator sample default0 =
     (let default = (if default0 = PyNone then PyStr LINE_TERMINATOR_DEFAULT else default0) in
      case sample of
        PyNone \<Rightarrow> Inr default
      | PyOther \<Rightarrow> Inr default
      | PyStream _ \<Rightarrow> Inr default
      | PyBytes _ \<Rightarrow> Inl TypeError
      | PyStr s \<Rightarrow>
          (let ranked_options =
                 sorted_reverse
                   (zip (map (str_count s) LINE_TERMINATORS)
                        (zip (map length LINE_TERMINATORS) LINE_TERMINATORS))
           in case ranked_options of
                [] \<Rightarrow> Inl IndexError
              | best_option # _ \<Rightarrow>
                  if fst best_option = 0 then Inr default
                  else Inr (PyStr (snd (snd best_option)))))"

section \<open>The collaborators of the stream resolver\<close>

text \<open>
  \<open>open_stream\<close> reads the file system, the network and ZIP archives through library
  calls. What those calls answer is a parameter of the model, the record \<open>env\<close>:
  \<^item> \<open>urlparse\<close>: \<open>urllib.parse.urlparse\<close>, which can raise (\<open>ValueError\<close> on an
    unbalanced bracket in the host part, for one);
  \<^item> \<open>path_exists\<close>, \<open>expanduser\<close>, \<open>abspath\<close>: the functions of \<open>os.path\<close>;
  \<^item> \<open>open_rb\<close>: \<open>open(path, mode="rb")\<close>, giving the file's bytes and whether the
    file object is seekable, or the exception raised;
  \<^item> \<open>requests_is_None\<close>: whether the import of \<open>requests\<close> failed;
  \<^item> \<open>requests_head\<close>, \<open>requests_get\<close>: the two requests, giving a response or the
    exception raised;
  \<^item> \<open>is_zipfile\<close>, \<open>zip_namelist\<close>, \<open>zip_read\<close>: \<open>zipfile.is_zipfile\<close>, opening a
    \<open>ZipFile\<close> and listing its members, and reading one member, on the bytes of a
    stream;
  \<^item> \<open>codec_exists\<close>: whether Python knows a codec of that name.
\<close>

record parsed_url =
  url_scheme :: string
  url_netloc :: string
  url_path :: string

record response =
  resp_ok :: bool
  resp_content :: bytes
  resp_encoding :: "string option"

text \<open>
  Modelled from the spec: \<open>comma.extras.detect_encoding\<close> is called by \<open>open_stream\<close>
  and is not among the source files. The spec gives its interface: from a byte sample
  to an encoding name, always returning a usable value. It is the field
  \<open>detect_encoding\<close>.
\<close>

record env =
  urlparse :: "string \<Rightarrow> error + parsed_url"
  path_exists :: "string \<Rightarrow> bool"
  expanduser :: "string \<Rightarrow> string"
  abspath :: "string \<Rightarrow> string"
  open_rb :: "string \<Rightarrow> error + bytes \<times> bool"
  requests_is_None :: bool
  requests_head :: "string \<Rightarrow> error + response"
  requests_get :: "string \<Rightarrow> error + response"
  is_zipfile :: "bytes \<Rightarrow> bool"
  zip_namelist :: "bytes \<Rightarrow> error + string list"
  zip_read :: "bytes \<Rightarrow> string \<Rightarrow> error + bytes"
  detect_encoding :: "bytes \<Rightarrow> string"
  codec_exists :: "string \<Rightarrow> bool"

definition URI_SCHEME_LOCAL :: string where
  "URI_SCHEME_LOCAL = ''file''"

definition URI_SCHEMES_ACCEPTED :: "string list" where
  "URI_SCHEMES_ACCEPTED = [''http'', ''https'']"

section \<open>The location classifier\<close>

text \<open>
  \<open>is_local(location)\<close> for a \<open>str\<close> argument, the only kind \<open>open_stream\<close> passes.
  Only \<open>AttributeError\<close> is caught around \<open>urlparse\<close>; any other exception leaves
  the function.
\<close>

definition is_local :: "env \<Rightarrow> string \<Rightarrow> error + string option" where
  "is_local env location =
     (if location = [] then Inr None
      else case urlparse env location of
        Inl AttributeError \<Rightarrow> Inr None
      | Inl e \<Rightarrow> Inl e
      | Inr parsed_location \<Rightarrow>
          (let path1 =
                 (if url_scheme parsed_location \<in> set [URI_SCHEME_LOCAL, []] then
                    (let parsed_path =
                           (if url_netloc parsed_location \<noteq> []
                            then url_netloc parsed_location @ url_path parsed_location
                            else url_path parsed_location);
                         p = (if path_exists env parsed_path then Some parsed_path else None)
                     in if path_exists env (expanduser env parsed_path)
                        then Some (expanduser env parsed_path) else p)
                  else None);
               path2 =
                 (if path_exists env location then Some location
                  else if path_exists env (expanduser env location)
                  then Some (expanduser env location)
                  else path1)
           in case path2 of
                Some p \<Rightarrow> Inr (Some (abspath env p))
              | None \<Rightarrow> Inr None))"

text \<open>
  \<open>is_url(location, no_request)\<close>. Every exception of \<open>urlparse\<close> is caught here; of the
  HEAD request, \<open>InvalidSchema\<close> and \<open>ConnectionError\<close> are caught and any other
  exception leaves the function.
\<close>

definition is_url :: "env \<Rightarrow> string \<Rightarrow> bool \<Rightarrow> error + bool" where
  "is_url env location no_request =
     (if location = [] then Inr False
      else case urlparse env location of
        Inl _ \<Rightarrow> Inr False
      | Inr parsed_location \<Rightarrow>
          if url_scheme parsed_location = [] \<or> url_netloc parsed_location = [] then Inr False
          else if url_scheme parsed_location = URI_SCHEME_LOCAL then Inr False
          else if no_request \<or> requests_is_None env
          then Inr (url_scheme parsed_location \<in> set URI_SCHEMES_ACCEPTED)
          else (case requests_head env location of
                  Inl InvalidSchema \<Rightarrow> Inr False
                | Inl ConnectionError \<Rightarrow> Inr False
                | Inl e \<Rightarrow> Inl e
                | Inr response \<Rightarrow> Inr (resp_ok response)))"

section \<open>Streams\<close>

text \<open>\<open>sub in s\<close> on a Python \<open>str\<close>.\<close>

fun str_contains :: "string \<Rightarrow> string \<Rightarrow> bool" where
  "str_contains sub [] = (sub = [])"
| "str_contains sub (c # s) = (take (length sub) (c # s) = sub \<or> str_contains sub s)"

text \<open>
  \<open>io.StringIO(initial_value, newline)\<close>. The initial value is written to the buffer as
  \<open>write\<close> would write it: when \<open>newline\<close> starts with a carriage return ("\r" or
  "\r\n"), every "\n" of the text is replaced by \<open>newline\<close>; with "\n" or the empty
  string the text is stored as it is. The position is then set to 0.
\<close>

fun replace_LF :: "string \<Rightarrow> string \<Rightarrow> string" where
  "replace_LF newline [] = []"
| "replace_LF newline (c # cs) =
     (if c = LF then newline @ replace_LF newline cs else c # replace_LF newline cs)"

definition StringIO_new :: "string \<Rightarrow> string \<Rightarrow> io_stream" where
  "StringIO_new initial_value newline =
     \<lparr>stream_data =
        Text_data (if take 1 newline = [CR] then replace_LF newline initial_value
                   else initial_value),
      stream_pos = 0, stream_seekable = True, stream_class = StringIO, stream_name = None\<rparr>"

definition BytesIO_new :: "bytes \<Rightarrow> io_stream" where
  "BytesIO_new initial_bytes =
     \<lparr>stream_data = Bytes_data initial_bytes,
      stream_pos = 0, stream_seekable = True, stream_class = BytesIO, stream_name = None\<rparr>"

definition file_stream :: "bytes \<Rightarrow> bool \<Rightarrow> io_stream" where
  "file_stream file_bytes seekable =
     \<lparr>stream_data = Bytes_data file_bytes,
      stream_pos = 0, stream_seekable = seekable, stream_class = BufferedReader,
      stream_name = None\<rparr>"

fun payload_length :: "payload \<Rightarrow> nat" where
  "payload_length (Bytes_data b) = length b"
| "payload_length (Text_data t) = length t"

fun payload_slice :: "nat \<Rightarrow> nat \<Rightarrow> payload \<Rightarrow> payload" where
  "payload_slice from n (Bytes_data b) = Bytes_data (take n (drop from b))"
| "payload_slice from n (Text_data t) = Text_data (take n (drop from t))"

text \<open>\<open>stream.seek(offset)\<close>, \<open>stream.read(n)\<close> and \<open>stream.read()\<close>.\<close>

definition seek :: "nat \<Rightarrow> io_stream \<Rightarrow> error + io_stream" where
  "seek offset s =
     (if stream_seekable s then Inr (s\<lparr>stream_pos := offset\<rparr>) else Inl UnsupportedOperation)"

definition read_n :: "nat \<Rightarrow> io_stream \<Rightarrow> payload \<times> io_stream" where
  "read_n n s =
     (payload_slice (stream_pos s) n (stream_data s),
      s\<lparr>stream_pos := max (stream_pos s)
                         (min (stream_pos s + n) (payload_length (stream_data s)))\<rparr>)"

definition read_all :: "io_stream \<Rightarrow> payload \<times> io_stream" where
  "read_all s = read_n (payload_length (stream_data s)) s"

text \<open>
  What \<open>open_stream\<close> returns: a text stream it was given or has built, or an
  \<open>io.TextIOWrapper\<close> around a binary stream, with the encoding it decodes with. A
  wrapper that has not been read yet starts decoding at its buffer's position, and
  \<open>tell()\<close> answers that position.
\<close>

datatype text_stream = Plain io_stream | TextIOWrapper io_stream "string option"

fun tell :: "text_stream \<Rightarrow> nat" where
  "tell (Plain s) = stream_pos s"
| "tell (TextIOWrapper b encoding) = stream_pos b"

text \<open>
  \<open>io.TextIOWrapper(buffer, encoding=encoding)\<close> on a stream: \<open>LookupError\<close> for an
  unknown codec. On a \<open>bytes\<close> object in place of the stream the constructor, after
  the codec lookup, calls \<open>buffer.readable()\<close>, which \<open>bytes\<close> does not have:
  \<open>AttributeError\<close>, whatever the bytes are.
\<close>

definition TextIOWrapper_new :: "env \<Rightarrow> io_stream \<Rightarrow> string option \<Rightarrow> error + text_stream" where
  "TextIOWrapper_new env buffer encoding =
     (case encoding of
        None \<Rightarrow> Inr (TextIOWrapper buffer None)
      | Some e \<Rightarrow> if codec_exists env e then Inr (TextIOWrapper buffer encoding)
                  else Inl LookupError)"

definition TextIOWrapper_on_bytes :: "env \<Rightarrow> bytes \<Rightarrow> string option \<Rightarrow> error" where
  "TextIOWrapper_on_bytes env buffer encoding =
     (case encoding of
        None \<Rightarrow> AttributeError
      | Some e \<Rightarrow> if codec_exists env e then AttributeError else LookupError)"

section \<open>The archive unwrapper\<close>

text \<open>
  \<open>os.path.splitext(name)[1]\<close> with the POSIX separator: the extension starts at the
  last dot, if that dot is after the last slash and some character between the two is
  not a dot. \<open>rfind\<close> answers -1 when the character does not occur.
\<close>

definition rfind :: "char \<Rightarrow> string \<Rightarrow> int" where
  "rfind c p =
     (case filter (\<lambda>i. p ! i = c) (rev [0..<length p]) of
        [] \<Rightarrow> -1
      | i # _ \<Rightarrow> int i)"

definition splitext_ext :: "string \<Rightarrow> string" where
  "splitext_ext p =
     (let sepIndex = rfind (CHR ''/'') p;
          dotIndex = rfind (CHR ''.'') p
      in if sepIndex < dotIndex \<and>
            list_ex (\<lambda>i. p ! i \<noteq> CHR ''.'') [nat (sepIndex + 1)..<nat dotIndex]
         then drop (nat dotIndex) p else [])"

text \<open>\<open>str.lower()\<close> on code points below 256.\<close>

definition char_lower :: "char \<Rightarrow> char" where
  "char_lower c =
     (let n = (of_char c :: nat)
      in if (65 \<le> n \<and> n \<le> 90) \<or> (192 \<le> n \<and> n \<le> 222 \<and> n \<noteq> 215)
         then char_of (n + 32) else c)"

definition is_csv_name :: "string \<Rightarrow> bool" where
  "is_csv_name name = (map char_lower (splitext_ext name) = ''.csv'')"

text \<open>The loop over the member names: \<open>(count_total, count_csv, csv_filename)\<close>.\<close>

fun scan_names :: "string list \<Rightarrow> nat \<times> nat \<times> string option \<Rightarrow> nat \<times> nat \<times> string option" where
  "scan_names [] acc = acc"
| "scan_names (name # names) (count_total, count_csv, csv_filename) =
     scan_names names
       (if is_csv_name name then (count_total + 1, count_csv + 1, Some name)
        else (count_total + 1, count_csv, csv_filename))"

definition extract_member :: "env \<Rightarrow> bytes \<Rightarrow> string \<Rightarrow> error + io_stream" where
  "extract_member env archive name =
     (case zip_read env archive name of
        Inl e \<Rightarrow> Inl e
      | Inr data \<Rightarrow> Inr (BytesIO_new data))"

text \<open>
  The block under \<open>if zipfile.is_zipfile(source)\<close>. \<open>is_zipfile\<close> seeks from the end of
  the stream, which a text stream refuses with an \<open>OSError\<close> that \<open>is_zipfile\<close> turns
  into \<open>False\<close>.
\<close>

definition unzip :: "env \<Rightarrow> io_stream \<Rightarrow> error + io_stream" where
  "unzip env source =
     (case stream_data source of
        Text_data _ \<Rightarrow> Inr source
      | Bytes_data archive \<Rightarrow>
          if is_zipfile env archive then
            (case zip_namelist env archive of
               Inl e \<Rightarrow> Inl e
             | Inr names \<Rightarrow>
                 (case scan_names names (0, 0, None) of
                    (count_total, count_csv, csv_filename) \<Rightarrow>
                      if count_total = 1 then
                        (case names of
                           [] \<Rightarrow> Inl IndexError
                         | name0 # _ \<Rightarrow> extract_member env archive name0)
                      else if 1 < count_total \<and> count_csv = 1 then
                        (case csv_filename of
                           None \<Rightarrow> Inl KeyError
                         | Some name \<Rightarrow> extract_member env archive name)
                      else if count_total = 0 then Inl ValueError_empty_zip
                      else Inl (ValueError_ambiguous_zip names)))
          else Inr source)"

section \<open>The stream resolver\<close>

text \<open>
  The block under \<open>if type(source) is str\<close>: it returns from \<open>open_stream\<close>
  (\<open>Returned\<close>) or goes on with a new \<open>source\<close>, \<open>encoding\<close> and \<open>internal_name\<close>
  (\<open>Located\<close>).
\<close>

datatype located = Returned "text_stream option" | Located pyobj "string option" "string option"

definition fetch_url :: "env \<Rightarrow> string \<Rightarrow> string option \<Rightarrow> error + located" where
  "fetch_url env source encoding =
     (if requests_is_None env then Inl AttributeError
      else case requests_get env source of
        Inl e \<Rightarrow> Inl e
      | Inr response \<Rightarrow>
          if \<not> resp_ok response then Inr (Returned None)
          else
            (let encoding' = (if encoding = None then resp_encoding response else encoding)
             in if encoding' \<noteq> None
                then Inl (TextIOWrapper_on_bytes env (resp_content response) encoding')
                else Inr (Located (PyStream (BytesIO_new (resp_content response)))
                            encoding' (Some source))))"

definition resolve_str :: "env \<Rightarrow> string \<Rightarrow> string option \<Rightarrow> bool \<Rightarrow> error + located" where
  "resolve_str env source encoding no_request =
     (if str_contains [LF] source then
        Inr (Returned (Some (Plain (StringIO_new source
               (if str_contains [CR, LF] source then [CR, LF] else [LF])))))
      else case is_local env source of
        Inl e \<Rightarrow> Inl e
      | Inr (Some local_path) \<Rightarrow>
          (case open_rb env local_path of
             Inl e \<Rightarrow> Inl e
           | Inr (file_bytes, seekable) \<Rightarrow>
               Inr (Located (PyStream (file_stream file_bytes seekable)) encoding (Some source)))
      | Inr None \<Rightarrow>
          if no_request then Inr (Returned None)
          else (case is_url env source False of
                  Inl e \<Rightarrow> Inl e
                | Inr True \<Rightarrow> fetch_url env source encoding
                | Inr False \<Rightarrow> Inr (Returned None)))"

text \<open>
  A stream that is not seekable is read to its end and replaced by an in-memory stream
  of what was read.
\<close>

definition materialize :: "io_stream \<Rightarrow> io_stream" where
  "materialize source =
     (if stream_seekable source then source
      else case fst (read_all source) of
        Text_data data \<Rightarrow> StringIO_new data [LF]
      | Bytes_data data \<Rightarrow> BytesIO_new data)"

text \<open>
  \<open>source.buffer.name = internal_name\<close> under \<open>except AttributeError: pass\<close>: a
  \<open>BytesIO\<close> buffer takes the attribute; the \<open>name\<close> of a \<open>BufferedReader\<close> is not
  writable and a text stream that is not a wrapper has no \<open>buffer\<close>, both an
  \<open>AttributeError\<close> that is dropped.
\<close>

fun set_buffer_name :: "string \<Rightarrow> text_stream \<Rightarrow> text_stream" where
  "set_buffer_name internal_name (TextIOWrapper b encoding) =
     (if stream_class b = BytesIO
      then TextIOWrapper (b\<lparr>stream_name := Some internal_name\<rparr>) encoding
      else TextIOWrapper b encoding)"
| "set_buffer_name internal_name (Plain s) = Plain s"

text \<open>From \<open>source.seek(0)\<close> to \<open>return source\<close>.\<close>

definition finish :: "env \<Rightarrow> io_stream \<Rightarrow> string option \<Rightarrow> string option \<Rightarrow> error + text_stream" where
  "finish env source encoding internal_name =
     (case seek 0 source of
        Inl e \<Rightarrow> Inl e
      | Inr source0 \<Rightarrow>
          (case read_n MAX_SAMPLE_CHUNKSIZE source0 of
             (sample, source1) \<Rightarrow>
               (case (case sample of
                        Bytes_data sample_bytes \<Rightarrow>
                          TextIOWrapper_new env source1
                            (if encoding = None then Some (detect_encoding env sample_bytes)
                             else encoding)
                      | Text_data _ \<Rightarrow> Inr (Plain source1)) of
                  Inl e \<Rightarrow> Inl e
                | Inr wrapped \<Rightarrow>
                    Inr (case internal_name of
                           None \<Rightarrow> wrapped
                         | Some n \<Rightarrow> set_buffer_name n wrapped))))"

text \<open>From \<open>if type(source) is bytes\<close> to the end.\<close>

definition resolve_stream :: "env \<Rightarrow> pyobj \<Rightarrow> string option \<Rightarrow> string option \<Rightarrow> error + text_stream option" where
  "resolve_stream env source encoding internal_name =
     (case (case source of PyBytes b \<Rightarrow> PyStream (BytesIO_new b) | _ \<Rightarrow> source) of
        PyStream s \<Rightarrow>
          (case unzip env (materialize s) of
             Inl e \<Rightarrow> Inl e
           | Inr s' \<Rightarrow>
               (case finish env s' encoding internal_name of
                  Inl e \<Rightarrow> Inl e
                | Inr result \<Rightarrow> Inr (Some result)))
      | _ \<Rightarrow> Inr None)"

text \<open>
  \<open>open_stream(source, encoding=None, no_request=False)\<close>: \<open>Inl\<close> is an exception,
  \<open>Inr None\<close> the value \<open>None\<close>, \<open>Inr (Some s)\<close> a stream.
\<close>

definition open_stream :: "env \<Rightarrow> pyobj \<Rightarrow> string option \<Rightarrow> bool \<Rightarrow> error + text_stream option" where
  "open_stream env source encoding no_request =
     (case source of
        PyNone \<Rightarrow> Inr None
      | PyStr s \<Rightarrow>
          (case resolve_str env s encoding no_request of
             Inl e \<Rightarrow> Inl e
           | Inr (Returned result) \<Rightarrow> Inr result
           | Inr (Located source' encoding' internal_name) \<Rightarrow>
               resolve_stream env source' encoding' internal_name)
      | _ \<Rightarrow> resolve_stream env source encoding None)"

section \<open>The sequence multi-slicer\<close>

text \<open>
  A \<open>slice(start, stop, step)\<close> object, \<open>None\<close> for a part left out. \<open>sequence[sl]\<close>
  on a list first clips the slice to the length as \<open>slice.indices\<close> does
  (\<open>ValueError\<close> for a step of zero), then takes the elements at \<open>start\<close>,
  \<open>start + step\<close>, ... up to and without \<open>stop\<close>.
\<close>

record slice =
  slice_start :: "int option"
  slice_stop :: "int option"
  slice_step :: "int option"

definition slice_indices :: "slice \<Rightarrow> int \<Rightarrow> error + int \<times> int \<times> int" where
  "slice_indices sl len =
     (let step = (case slice_step sl of None \<Rightarrow> 1 | Some k \<Rightarrow> k)
      in if step = 0 then Inl ValueError_step_zero
         else
           (let lower = (if step < 0 then -1 else 0);
                upper = (if step < 0 then len - 1 else len);
                start = (case slice_start sl of
                           None \<Rightarrow> (if step < 0 then upper else lower)
                         | Some a \<Rightarrow> (if a < 0 then max (a + len) lower else min a upper));
                stop = (case slice_stop sl of
                          None \<Rightarrow> (if step < 0 then lower else upper)
                        | Some b \<Rightarrow> (if b < 0 then max (b + len) lower else min b upper))
            in Inr (start, stop, step)))"

definition slice_length :: "int \<Rightarrow> int \<Rightarrow> int \<Rightarrow> nat" where
  "slice_length start stop step =
     (if step < 0 then (if stop < start then nat ((start - stop - 1) div (- step) + 1) else 0)
      else (if start < stop then nat ((stop - start - 1) div step + 1) else 0))"

definition getitem :: "'a list \<Rightarrow> slice \<Rightarrow> error + 'a list" where
  "getitem xs sl =
     (case slice_indices sl (int (length xs)) of
        Inl e \<Rightarrow> Inl e
      | Inr (start, stop, step) \<Rightarrow>
          Inr (map (\<lambda>k. xs ! nat (start + int k * step)) [0..<slice_length start stop step]))"

text \<open>The \<open>for\<close> loop of \<open>multislice_sequence\<close>, and the function.\<close>

fun apply_slices :: "'a list \<Rightarrow> slice list \<Rightarrow> error + 'a list" where
  "apply_slices new_sequence [] = Inr new_sequence"
| "apply_slices new_sequence (sl # rest) =
     (case getitem new_sequence sl of
        Inl e \<Rightarrow> Inl e
      | Inr sliced \<Rightarrow> apply_slices sliced rest)"

definition multislice_sequence :: "'a list \<Rightarrow> slice list option \<Rightarrow> error + 'a list" where
  "multislice_sequence sequence slice_list =
     (case slice_list of
        None \<Rightarrow> Inr sequence
      | Some slices \<Rightarrow> apply_slices sequence slices)"

text \<open>\<open>slice(a, b)\<close>.\<close>

definition slice2 :: "int \<Rightarrow> int \<Rightarrow> slice" where
  "slice2 a b = \<lparr>slice_start = Some a, slice_stop = Some b, slice_step = None\<rparr>"

section \<open>An environment for the examples\<close>

text \<open>
  A machine on which \<open>requests\<close> is installed and one URL answers, on which exactly
  the byte string \<open>archive\<close> is a ZIP archive, holding \<open>members\<close> (names and
  contents, in the order of the archive), and whose only file is \<open>data.zip\<close> in the
  working directory, holding \<open>archive\<close>. \<open>urlparse\<close> is given on the strings the
  examples use: the URL, a string with an opening bracket in its host part, for which
  Python raises \<open>ValueError("Invalid IPv6 URL")\<close>, and relative paths.
\<close>

definition example_url :: string where
  "example_url = ''http://example.com/data.csv''"

definition example_body :: bytes where
  "example_body = [0x61, 0x2C, 0x62, 0x0A]"

definition example_env :: "bytes \<Rightarrow> (string \<times> bytes) list \<Rightarrow> env" where
  "example_env archive members =
     \<lparr>urlparse = (\<lambda>s.
         if s = ''http://['' then Inl ValueError_parse
         else if s = example_url
         then Inr \<lparr>url_scheme = ''http'', url_netloc = ''example.com'', url_path = ''/data.csv''\<rparr>
         else Inr \<lparr>url_scheme = [], url_netloc = [], url_path = s\<rparr>),
      path_exists = (\<lambda>p. p = ''data.zip''),
      expanduser = (\<lambda>p. p),
      abspath = (\<lambda>p. ''/home/user/'' @ p),
      open_rb = (\<lambda>p.
         if p = ''/home/user/data.zip'' then Inr (archive, True)
         else Inl (OtherError ''FileNotFoundError'')),
      requests_is_None = False,
      requests_head = (\<lambda>u.
         if u = example_url
         then Inr \<lparr>resp_ok = True, resp_content = [], resp_encoding = Some ''utf-8''\<rparr>
         else Inl ConnectionError),
      requests_get = (\<lambda>u.
         if u = example_url
         then Inr \<lparr>resp_ok = True, resp_content = example_body, resp_encoding = Some ''utf-8''\<rparr>
         else Inl ConnectionError),
      is_zipfile = (\<lambda>b. b = archive),
      zip_namelist = (\<lambda>b. Inr (map fst members)),
      zip_read = (\<lambda>b name.
         case map_of members name of None \<Rightarrow> Inl KeyError | Some data \<Rightarrow> Inr data),
      detect_encoding = (\<lambda>sample. ''utf-8''),
      codec_exists = (\<lambda>e. e = ''utf-8'')\<rparr>"

section \<open>Properties of the line-terminator detector\<close>

lemma str_count_short: "sub \<noteq> [] \<Longrightarrow> length s < length sub \<Longrightarrow> str_count s sub = 0"
  by (subst str_count.simps) simp

lemma str_count_hit:
  "sub \<noteq> [] \<Longrightarrow> str_count (sub @ s) sub = Suc (str_count s sub)"
  by (subst str_count.simps) simp

lemma str_count_miss:
  "sub \<noteq> [] \<Longrightarrow> length sub \<le> Suc (length s) \<Longrightarrow> take (length sub) (c # s) \<noteq> sub \<Longrightarrow>
   str_count (c # s) sub = str_count s sub"
  by (subst str_count.simps) simp

lemma str_count_crlf_rep:
  "str_count (concat (replicate n [CR, LF])) [CR, LF] = n"
proof (induction n)
  case 0
  show ?case by (simp add: str_count_short)
next
  case (Suc n)
  have "str_count ([CR, LF] @ concat (replicate n [CR, LF])) [CR, LF]
        = Suc (str_count (concat (replicate n [CR, LF])) [CR, LF])"
    by (rule str_count_hit) simp
  with Suc show ?case by simp
qed

lemma str_count_single: "str_count s [c] = count_list s c"
proof (induction s)
  case Nil
  show ?case by (simp add: str_count_short)
next
  case (Cons a s)
  show ?case
  proof (cases "a = c")
    case True
    have "str_count ([c] @ s) [c] = Suc (str_count s [c])"
      by (rule str_count_hit) simp
    with True Cons show ?thesis by simp
  next
    case False
    have "str_count (a # s) [c] = str_count s [c]"
      by (rule str_count_miss) (use False in simp_all)
    with False Cons show ?thesis by simp
  qed
qed

lemma count_list_crlf_rep:
  "count_list (concat (replicate n [CR, LF])) CR = n"
  "count_list (concat (replicate n [CR, LF])) LF = n"
  by (induction n) simp_all

lemma detect_str_unfold:
  "detect_line_terminator (PyStr s) d =
     (case sorted_reverse
             [(str_count s [CR, LF], Suc (Suc 0), [CR, LF]),
              (str_count s [CR], Suc 0, [CR]),
              (str_count s [LF], Suc 0, [LF])] of
        [] \<Rightarrow> Inl IndexError
      | b # _ \<Rightarrow>
          if fst b = 0 then Inr (if d = PyNone then PyStr [LF] else d)
          else Inr (PyStr (snd (snd b))))"
  unfolding detect_line_terminator_def LINE_TERMINATORS_def LINE_TERMINATOR_DEFAULT_def Let_def
  by simp

text \<open>
  C3. A text sample made of N > 0 occurrences of "\r\n" and nothing else is detected
  as "\r\n": the three candidates all have count N, and the longer pattern ranks first.
\<close>

theorem crlf_only_detected:
  "0 < n \<Longrightarrow>
   detect_line_terminator (PyStr (concat (replicate n [CR, LF]))) d = Inr (PyStr [CR, LF])"
  by (simp add: detect_str_unfold str_count_crlf_rep str_count_single count_list_crlf_rep
        sorted_reverse_def)

theorem crlf_only_detected_witness:
  "(0::nat) < 2 \<and>
   detect_line_terminator (PyStr [CR, LF, CR, LF]) PyNone = Inr (PyStr [CR, LF])"
  using crlf_only_detected [of 2 PyNone] by (simp add: numeral_2_eq_2)

lemma not_contains_count_zero:
  "sub \<noteq> [] \<Longrightarrow> \<not> str_contains sub s \<Longrightarrow> str_count s sub = 0"
proof (induction s)
  case Nil
  then show ?case by (simp add: str_count_short)
next
  case (Cons c s)
  show ?case
  proof (cases "length (c # s) < length sub")
    case True
    with Cons.prems show ?thesis by (simp add: str_count_short)
  next
    case False
    have "str_count (c # s) sub = str_count s sub"
      by (rule str_count_miss) (use Cons.prems False in simp_all)
    with Cons show ?thesis by simp
  qed
qed

text \<open>
  C10. A text sample with no occurrence of "\r\n" and equally many (at least one) "\r"
  and "\n" is detected as "\r": the candidates "\r" and "\n" tie on count and length,
  and the descending sort then compares the terminator strings, where "\r" is above "\n".
\<close>

theorem cr_wins_tie_with_lf:
  "\<not> str_contains [CR, LF] s \<Longrightarrow> count_list s CR = count_list s LF \<Longrightarrow>
   0 < count_list s CR \<Longrightarrow>
   detect_line_terminator (PyStr s) d = Inr (PyStr [CR])"
  by (simp add: detect_str_unfold sorted_reverse_def not_contains_count_zero str_count_single)

theorem cr_wins_tie_with_lf_witness:
  "\<not> str_contains [CR, LF] [CHR ''a'', CR, CHR ''b'', LF]
   \<and> count_list [CHR ''a'', CR, CHR ''b'', LF] CR = count_list [CHR ''a'', CR, CHR ''b'', LF] LF
   \<and> 0 < count_list [CHR ''a'', CR, CHR ''b'', LF] CR
   \<and> detect_line_terminator (PyStr [CHR ''a'', CR, CHR ''b'', LF]) PyNone = Inr (PyStr [CR])"
  using cr_wins_tie_with_lf [of "[CHR ''a'', CR, CHR ''b'', LF]" PyNone] by simp

text \<open>
  C4. On a \<open>bytes\<close> sample the detector does not return a terminator: whatever the
  bytes are (\<open>b"a\n"\<close>, say) and whatever the default, the call
  \<open>sample.count("\r\n")\<close> raises \<open>TypeError\<close>.
\<close>

theorem bytes_sample_raises: "detect_line_terminator (PyBytes b) d = Inl TypeError"
  by (simp add: detect_line_terminator_def Let_def)

section \<open>Properties of the stream resolver\<close>

subsection \<open>The shape of a call, by kind of source\<close>

lemma materialize_BytesIO: "materialize (BytesIO_new b) = BytesIO_new b"
  by (simp add: materialize_def BytesIO_new_def)

lemma materialize_file: "stream_data (materialize (file_stream b sk)) = Bytes_data b"
  by (simp add: materialize_def file_stream_def BytesIO_new_def read_all_def read_n_def)

lemma open_stream_bytes:
  "open_stream env (PyBytes b) encoding no_request =
     (case unzip env (BytesIO_new b) of
        Inl e \<Rightarrow> Inl e
      | Inr s' \<Rightarrow> map_sum id Some (finish env s' encoding None))"
  by (simp add: open_stream_def resolve_stream_def materialize_BytesIO map_sum_def
      split: sum.splits)

lemma open_stream_stream:
  "open_stream env (PyStream s) encoding no_request =
     (case unzip env (materialize s) of
        Inl e \<Rightarrow> Inl e
      | Inr s' \<Rightarrow> map_sum id Some (finish env s' encoding None))"
  by (simp add: open_stream_def resolve_stream_def map_sum_def split: sum.splits)

lemma open_stream_path:
  assumes "\<not> str_contains [LF] p" and "is_local env p = Inr (Some local_path)"
    and "open_rb env local_path = Inr (b, sk)"
  shows "open_stream env (PyStr p) encoding no_request =
     (case unzip env (materialize (file_stream b sk)) of
        Inl e \<Rightarrow> Inl e
      | Inr s' \<Rightarrow> map_sum id Some (finish env s' encoding (Some p)))"
  using assms
  by (simp add: open_stream_def resolve_str_def resolve_stream_def map_sum_def split: sum.splits)

subsection \<open>The read position of the returned stream\<close>

lemma tell_set_buffer_name: "tell (set_buffer_name n ts) = tell ts"
  by (cases ts) simp_all

lemma finish_tell:
  "finish env s encoding internal_name = Inr ts \<Longrightarrow>
   tell ts = min MAX_SAMPLE_CHUNKSIZE (payload_length (stream_data s))"
  by (auto simp: finish_def seek_def read_n_def TextIOWrapper_new_def tell_set_buffer_name
      split: if_splits sum.splits payload.splits option.splits)

lemma bytes_source_position:
  "\<not> is_zipfile env b \<Longrightarrow> open_stream env (PyBytes b) encoding no_request = Inr (Some ts) \<Longrightarrow>
   tell ts = min MAX_SAMPLE_CHUNKSIZE (length b)"
  by (auto simp: open_stream_bytes unzip_def BytesIO_new_def map_sum_def
      dest!: finish_tell split: sum.splits)

text \<open>
  C1. The stream returned for the one-byte source \<open>b"a"\<close> is not at offset 0: the
  sample has been read, the wrapper is built around the buffer as the read left it, and
  there is no seek after that. The position is 1, the end of the data.
\<close>

theorem sampled_stream_not_rewound:
  "open_stream (example_env [] []) (PyBytes [0x61]) None False
     = Inr (Some (TextIOWrapper
         \<lparr>stream_data = Bytes_data [0x61], stream_pos = 1, stream_seekable = True,
          stream_class = BytesIO, stream_name = None\<rparr> (Some ''utf-8'')))
   \<and> tell (TextIOWrapper
         \<lparr>stream_data = Bytes_data [0x61], stream_pos = 1, stream_seekable = True,
          stream_class = BytesIO, stream_name = None\<rparr> (Some ''utf-8'')) = 1"
  by (simp add: open_stream_def resolve_stream_def BytesIO_new_def materialize_def unzip_def
      example_env_def finish_def seek_def read_n_def MAX_SAMPLE_CHUNKSIZE_def TextIOWrapper_new_def)

subsection \<open>Literal text\<close>

lemma starts_with_lf: "take (Suc 0) s = [LF] \<Longrightarrow> str_contains [LF] s"
  by (cases s) auto

lemma contains_crlf_lf: "str_contains [CR, LF] s \<Longrightarrow> str_contains [LF] s"
  by (induction s) (auto split: list.splits dest: starts_with_lf)

lemma length_replace_LF: "length (replace_LF [CR, LF] s) = length s + count_list s LF"
  by (induction s) simp_all

lemma contains_lf_count: "str_contains [LF] s \<Longrightarrow> 0 < count_list s LF"
  by (induction s) auto

lemma crlf_source_altered:
  assumes "str_contains [CR, LF] s"
  shows "open_stream env (PyStr s) encoding no_request = Inr (Some (Plain (StringIO_new s [CR, LF])))"
    and "stream_data (StringIO_new s [CR, LF]) = Text_data (replace_LF [CR, LF] s)"
    and "replace_LF [CR, LF] s \<noteq> s"
proof -
  from assms have lf: "str_contains [LF] s" by (rule contains_crlf_lf)
  with assms show "open_stream env (PyStr s) encoding no_request
      = Inr (Some (Plain (StringIO_new s [CR, LF])))"
    by (simp add: open_stream_def resolve_str_def)
  show "stream_data (StringIO_new s [CR, LF]) = Text_data (replace_LF [CR, LF] s)"
    by (simp add: StringIO_new_def)
  from lf have "length s < length (replace_LF [CR, LF] s)"
    by (simp add: length_replace_LF contains_lf_count)
  then show "replace_LF [CR, LF] s \<noteq> s" by auto
qed

text \<open>
  C2. The literal text "a\r\nb" does not come back as it was: the stream built for it
  holds "a\r\r\nb". \<open>StringIO\<close> is given \<open>newline="\r\n"\<close> and so writes every "\n" of
  the initial value as "\r\n", also the one that already follows a "\r".
\<close>

theorem crlf_literal_gains_cr:
  "open_stream env (PyStr [CHR ''a'', CR, LF, CHR ''b'']) encoding no_request
     = Inr (Some (Plain
         \<lparr>stream_data = Text_data [CHR ''a'', CR, CR, LF, CHR ''b''], stream_pos = 0,
          stream_seekable = True, stream_class = StringIO, stream_name = None\<rparr>))"
  by (simp add: open_stream_def resolve_str_def StringIO_new_def)

subsection \<open>Locations\<close>

lemma missing_path_not_resolved:
  assumes "\<not> str_contains [LF] p" and "urlparse env p = Inr u" and "url_scheme u = []"
    and "\<not> path_exists env p" and "\<not> path_exists env (expanduser env p)"
    and "\<not> path_exists env (if url_netloc u \<noteq> [] then url_netloc u @ url_path u else url_path u)"
    and "\<not> path_exists env
           (expanduser env (if url_netloc u \<noteq> [] then url_netloc u @ url_path u else url_path u))"
  shows "open_stream env (PyStr p) encoding no_request = Inr None"
  using assms
  by (simp add: open_stream_def resolve_str_def is_local_def is_url_def Let_def)

lemma urlparse_fault_propagates:
  "s \<noteq> [] \<Longrightarrow> \<not> str_contains [LF] s \<Longrightarrow> urlparse env s = Inl e \<Longrightarrow> e \<noteq> AttributeError \<Longrightarrow>
   open_stream env (PyStr s) encoding no_request = Inl e"
  by (cases e) (simp_all add: open_stream_def resolve_str_def is_local_def)

text \<open>
  C8. The string \<open>http://[\<close> has no newline, names no file and no URL that can be
  fetched, and \<open>open_stream\<close> raises on it: \<open>urlparse\<close> raises \<open>ValueError\<close> inside
  \<open>is_local\<close>, which catches \<open>AttributeError\<close> only.
\<close>

theorem malformed_location_raises:
  "open_stream (example_env [] []) (PyStr ''http://['') encoding no_request = Inl ValueError_parse"
  by (simp add: open_stream_def resolve_str_def is_local_def example_env_def)

lemma fetch_with_declared_encoding_raises:
  "\<not> requests_is_None env \<Longrightarrow> requests_get env u = Inr r \<Longrightarrow> resp_ok r \<Longrightarrow>
   resp_encoding r = Some e \<Longrightarrow>
   fetch_url env u None = Inl (if codec_exists env e then AttributeError else LookupError)"
  by (simp add: fetch_url_def TextIOWrapper_on_bytes_def)

lemma fetch_without_encoding_continues:
  "\<not> requests_is_None env \<Longrightarrow> requests_get env u = Inr r \<Longrightarrow> resp_ok r \<Longrightarrow>
   resp_encoding r = None \<Longrightarrow>
   fetch_url env u None = Inr (Located (PyStream (BytesIO_new (resp_content r))) None (Some u))"
  by (simp add: fetch_url_def)

text \<open>
  C6. A URL whose fetch succeeds and whose response declares an encoding is not
  resolved: with no explicit encoding the declared one is adopted, and the wrapper is
  then built on the body itself, a \<open>bytes\<close> object, which raises \<open>AttributeError\<close>.
\<close>

theorem url_with_encoding_raises:
  "open_stream (example_env [] []) (PyStr example_url) None False = Inl AttributeError"
  by (simp add: open_stream_def resolve_str_def is_local_def is_url_def fetch_url_def
      example_env_def example_url_def TextIOWrapper_on_bytes_def URI_SCHEME_LOCAL_def
      URI_SCHEMES_ACCEPTED_def)

subsection \<open>Archives\<close>

lemma scan_names_total: "fst (scan_names names (t, c, f)) = t + length names"
  by (induction names arbitrary: t c f) simp_all

lemma scan_names_csv:
  "fst (snd (scan_names names (t, c, f))) = c + length (filter is_csv_name names)"
  by (induction names arbitrary: t c f) simp_all

lemma unzip_ambiguous:
  assumes "is_zipfile env archive" and "zip_namelist env archive = Inr names"
    and "1 < length names" and "length (filter is_csv_name names) \<noteq> 1"
    and "stream_data s = Bytes_data archive"
  shows "unzip env s = Inl (ValueError_ambiguous_zip names)"
proof -
  obtain t c f where sc: "scan_names names (0, 0, None) = (t, c, f)"
    by (cases "scan_names names (0, 0, None)") auto
  have t: "t = length names"
    using scan_names_total [of names 0 0 None] sc by simp
  have c: "c = length (filter is_csv_name names)"
    using scan_names_csv [of names 0 0 None] sc by simp
  from assms t c have "t \<noteq> 1" "t \<noteq> 0" "c \<noteq> 1" by auto
  with assms sc show ?thesis by (simp add: unzip_def)
qed

lemma unzip_single:
  assumes "is_zipfile env archive" and "zip_namelist env archive = Inr [n]"
    and "zip_read env archive n = Inr d" and "stream_data s = Bytes_data archive"
  shows "unzip env s = Inr (BytesIO_new d)"
  using assms by (simp add: unzip_def extract_member_def)

text \<open>
  C5. An archive with more than one member, of which none or more than one has the
  extension \<open>.csv\<close> (in any case), makes \<open>open_stream\<close> raise the \<open>ValueError\<close> of
  an ambiguous archive, whose message is formatted with the list of all member names.
  This holds for the archive given as bytes, as a stream, and as the path of a file.
\<close>

theorem ambiguous_archive_raises:
  assumes "is_zipfile env archive" and "zip_namelist env archive = Inr names"
    and "1 < length names" and "length (filter is_csv_name names) \<noteq> 1"
  shows "open_stream env (PyBytes archive) encoding no_request
           = Inl (ValueError_ambiguous_zip names)
       \<and> (\<forall>s. stream_data (materialize s) = Bytes_data archive \<longrightarrow>
              open_stream env (PyStream s) encoding no_request
                = Inl (ValueError_ambiguous_zip names))
       \<and> (\<forall>p local_path seekable.
              \<not> str_contains [LF] p \<and> is_local env p = Inr (Some local_path)
                \<and> open_rb env local_path = Inr (archive, seekable) \<longrightarrow>
              open_stream env (PyStr p) encoding no_request
                = Inl (ValueError_ambiguous_zip names))"
proof (intro conjI allI impI)
  have "stream_data (BytesIO_new archive) = Bytes_data archive"
    by (simp add: BytesIO_new_def)
  from unzip_ambiguous [OF assms this]
  show "open_stream env (PyBytes archive) encoding no_request
           = Inl (ValueError_ambiguous_zip names)"
    by (simp add: open_stream_bytes)
next
  fix s assume "stream_data (materialize s) = Bytes_data archive"
  from unzip_ambiguous [OF assms this]
  show "open_stream env (PyStream s) encoding no_request = Inl (ValueError_ambiguous_zip names)"
    by (simp add: open_stream_stream)
next
  fix p local_path seekable
  assume h: "\<not> str_contains [LF] p \<and> is_local env p = Inr (Some local_path)
                \<and> open_rb env local_path = Inr (archive, seekable)"
  from unzip_ambiguous [OF assms materialize_file]
  have "unzip env (materialize (file_stream archive seekable)) = Inl (ValueError_ambiguous_zip names)" .
  with h show "open_stream env (PyStr p) encoding no_request = Inl (ValueError_ambiguous_zip names)"
    by (simp add: open_stream_path [of p env local_path archive seekable])
qed

theorem ambiguous_archive_raises_witness:
  "is_zipfile (example_env [0x50, 0x4B] [(''a.csv'', [0x31]), (''B.CSV'', [0x32]), (''readme.txt'', [0x33])]) [0x50, 0x4B]
   \<and> zip_namelist (example_env [0x50, 0x4B] [(''a.csv'', [0x31]), (''B.CSV'', [0x32]), (''readme.txt'', [0x33])]) [0x50, 0x4B]
       = Inr [''a.csv'', ''B.CSV'', ''readme.txt'']
   \<and> 1 < length [''a.csv'', ''B.CSV'', ''readme.txt'']
   \<and> length (filter is_csv_name [''a.csv'', ''B.CSV'', ''readme.txt'']) \<noteq> 1
   \<and> open_stream (example_env [0x50, 0x4B] [(''a.csv'', [0x31]), (''B.CSV'', [0x32]), (''readme.txt'', [0x33])])
         (PyBytes [0x50, 0x4B]) None False
       = Inl (ValueError_ambiguous_zip [''a.csv'', ''B.CSV'', ''readme.txt''])
   \<and> stream_data (materialize (BytesIO_new [0x50, 0x4B])) = Bytes_data [0x50, 0x4B]
   \<and> open_stream (example_env [0x50, 0x4B] [(''a.csv'', [0x31]), (''B.CSV'', [0x32]), (''readme.txt'', [0x33])])
         (PyStream (BytesIO_new [0x50, 0x4B])) None False
       = Inl (ValueError_ambiguous_zip [''a.csv'', ''B.CSV'', ''readme.txt''])
   \<and> \<not> str_contains [LF] ''data.zip''
   \<and> is_local (example_env [0x50, 0x4B] [(''a.csv'', [0x31]), (''B.CSV'', [0x32]), (''readme.txt'', [0x33])]) ''data.zip''
       = Inr (Some ''/home/user/data.zip'')
   \<and> open_rb (example_env [0x50, 0x4B] [(''a.csv'', [0x31]), (''B.CSV'', [0x32]), (''readme.txt'', [0x33])]) ''/home/user/data.zip''
       = Inr ([0x50, 0x4B], True)
   \<and> open_stream (example_env [0x50, 0x4B] [(''a.csv'', [0x31]), (''B.CSV'', [0x32]), (''readme.txt'', [0x33])])
         (PyStr ''data.zip'') None False
       = Inl (ValueError_ambiguous_zip [''a.csv'', ''B.CSV'', ''readme.txt''])"
  (is "?h1 \<and> ?h2 \<and> ?h3 \<and> ?h4 \<and> ?c1 \<and> ?h5 \<and> ?c2 \<and> ?h6 \<and> ?h7 \<and> ?h8 \<and> ?c3")
proof -
  have h1: ?h1 by (simp add: example_env_def)
  have h2: ?h2 by (simp add: example_env_def)
  have h3: ?h3 by simp
  have h4: ?h4 by code_simp
  have h5: ?h5 by (simp add: materialize_def BytesIO_new_def)
  have h6: ?h6 by simp
  have h7: ?h7 by (simp add: is_local_def example_env_def URI_SCHEME_LOCAL_def)
  have h8: ?h8 by (simp add: example_env_def)
  note t = ambiguous_archive_raises [OF h1 h2 h3 h4, of None False]
  from t have c1: ?c1 by blast
  from t h5 have c2: ?c2 by blast
  from t h6 h7 h8 have c3: ?c3 by blast
  from h1 h2 h3 h4 c1 h5 c2 h6 h7 h8 c3 show ?thesis by blast
qed

text \<open>
  C7. An archive with exactly one member is replaced by an in-memory stream of that
  member's bytes, whatever the member is called, and resolution goes on from
  \<open>source.seek(0)\<close> with that stream. This holds for the archive given as bytes, as
  a stream, and as the path of a file.
\<close>

theorem single_member_extracted:
  assumes "is_zipfile env archive" and "zip_namelist env archive = Inr [member]"
    and "zip_read env archive member = Inr data"
  shows "open_stream env (PyBytes archive) encoding no_request
           = map_sum id Some (finish env (BytesIO_new data) encoding None)
       \<and> (\<forall>s. stream_data (materialize s) = Bytes_data archive \<longrightarrow>
              open_stream env (PyStream s) encoding no_request
                = map_sum id Some (finish env (BytesIO_new data) encoding None))
       \<and> (\<forall>p local_path seekable.
              \<not> str_contains [LF] p \<and> is_local env p = Inr (Some local_path)
                \<and> open_rb env local_path = Inr (archive, seekable) \<longrightarrow>
              open_stream env (PyStr p) encoding no_request
                = map_sum id Some (finish env (BytesIO_new data) encoding (Some p)))"
proof (intro conjI allI impI)
  have "stream_data (BytesIO_new archive) = Bytes_data archive"
    by (simp add: BytesIO_new_def)
  from unzip_single [OF assms this]
  show "open_stream env (PyBytes archive) encoding no_request
           = map_sum id Some (finish env (BytesIO_new data) encoding None)"
    by (simp add: open_stream_bytes)
next
  fix s assume "stream_data (materialize s) = Bytes_data archive"
  from unzip_single [OF assms this]
  show "open_stream env (PyStream s) encoding no_request
           = map_sum id Some (finish env (BytesIO_new data) encoding None)"
    by (simp add: open_stream_stream)
next
  fix p local_path seekable
  assume h: "\<not> str_contains [LF] p \<and> is_local env p = Inr (Some local_path)
                \<and> open_rb env local_path = Inr (archive, seekable)"
  from unzip_single [OF assms materialize_file]
  have "unzip env (materialize (file_stream archive seekable)) = Inr (BytesIO_new data)" .
  with h show "open_stream env (PyStr p) encoding no_request
                = map_sum id Some (finish env (BytesIO_new data) encoding (Some p))"
    by (simp add: open_stream_path [of p env local_path archive seekable])
qed

theorem single_member_extracted_witness:
  "is_zipfile (example_env [0x50, 0x4B] [(''notes.bin'', [0x78, 0x0A])]) [0x50, 0x4B]
   \<and> zip_namelist (example_env [0x50, 0x4B] [(''notes.bin'', [0x78, 0x0A])]) [0x50, 0x4B]
       = Inr [''notes.bin'']
   \<and> zip_read (example_env [0x50, 0x4B] [(''notes.bin'', [0x78, 0x0A])]) [0x50, 0x4B] ''notes.bin''
       = Inr [0x78, 0x0A]
   \<and> open_stream (example_env [0x50, 0x4B] [(''notes.bin'', [0x78, 0x0A])])
         (PyBytes [0x50, 0x4B]) None False
       = map_sum id Some
           (finish (example_env [0x50, 0x4B] [(''notes.bin'', [0x78, 0x0A])])
              (BytesIO_new [0x78, 0x0A]) None None)
   \<and> stream_data (materialize (BytesIO_new [0x50, 0x4B])) = Bytes_data [0x50, 0x4B]
   \<and> open_stream (example_env [0x50, 0x4B] [(''notes.bin'', [0x78, 0x0A])])
         (PyStream (BytesIO_new [0x50, 0x4B])) None False
       = map_sum id Some
           (finish (example_env [0x50, 0x4B] [(''notes.bin'', [0x78, 0x0A])])
              (BytesIO_new [0x78, 0x0A]) None None)
   \<and> \<not> str_contains [LF] ''data.zip''
   \<and> is_local (example_env [0x50, 0x4B] [(''notes.bin'', [0x78, 0x0A])]) ''data.zip''
       = Inr (Some ''/home/user/data.zip'')
   \<and> open_rb (example_env [0x50, 0x4B] [(''notes.bin'', [0x78, 0x0A])]) ''/home/user/data.zip''
       = Inr ([0x50, 0x4B], True)
   \<and> open_stream (example_env [0x50, 0x4B] [(''notes.bin'', [0x78, 0x0A])])
         (PyStr ''data.zip'') None False
       = map_sum id Some
           (finish (example_env [0x50, 0x4B] [(''notes.bin'', [0x78, 0x0A])])
              (BytesIO_new [0x78, 0x0A]) None (Some ''data.zip''))
   \<and> (\<exists>wrapped.
          finish (example_env [0x50, 0x4B] [(''notes.bin'', [0x78, 0x0A])])
            (BytesIO_new [0x78, 0x0A]) None None = Inr wrapped)"
  (is "?h1 \<and> ?h2 \<and> ?h3 \<and> ?c1 \<and> ?h5 \<and> ?c2 \<and> ?h6 \<and> ?h7 \<and> ?h8 \<and> ?c3 \<and> ?ok")
proof -
  have h1: ?h1 by (simp add: example_env_def)
  have h2: ?h2 by (simp add: example_env_def)
  have h3: ?h3 by (simp add: example_env_def)
  have h5: ?h5 by (simp add: materialize_def BytesIO_new_def)
  have h6: ?h6 by simp
  have h7: ?h7 by (simp add: is_local_def example_env_def URI_SCHEME_LOCAL_def)
  have h8: ?h8 by (simp add: example_env_def)
  have ok: ?ok
    by (simp add: finish_def seek_def read_n_def BytesIO_new_def TextIOWrapper_new_def
        example_env_def MAX_SAMPLE_CHUNKSIZE_def)
  note t = single_member_extracted [OF h1 h2 h3, of None False]
  from t have c1: ?c1 by blast
  from t h5 have c2: ?c2 by blast
  from t h6 h7 h8 have c3: ?c3 by blast
  from h1 h2 h3 c1 h5 c2 h6 h7 h8 c3 ok show ?thesis by blast
qed

section \<open>Properties of the sequence multi-slicer\<close>

lemma apply_slices_append:
  "apply_slices xs (sls @ rest) =
     (case apply_slices xs sls of Inl e \<Rightarrow> Inl e | Inr ys \<Rightarrow> apply_slices ys rest)"
  by (induction sls arbitrary: xs) (simp_all split: sum.splits)

lemma map_nth_shift: "i + n \<le> length xs \<Longrightarrow> map (\<lambda>k. xs ! (i + k)) [0..<n] = take n (drop i xs)"
  by (simp add: list_eq_iff_nth_eq)

text \<open>\<open>sequence[a:b]\<close> for indices that are not negative: \<open>b - a\<close> elements from \<open>a\<close> on.\<close>

lemma getitem_slice2:
  assumes "0 \<le> a" and "0 \<le> b"
  shows "getitem xs (slice2 a b) = Inr (take (nat b - nat a) (drop (nat a) xs))"
proof (cases "min a (int (length xs)) < min b (int (length xs))")
  case True
  then have mina: "min a (int (length xs)) = a" and ab: "a < b" by auto
  define stop where "stop = min b (int (length xs))"
  have stop: "a < stop" "stop \<le> int (length xs)" "stop \<le> b"
    using True mina by (simp_all add: stop_def)
  have "map (\<lambda>k. xs ! nat (a + int k * 1)) [0..<nat (stop - a)]
        = map (\<lambda>k. xs ! (nat a + k)) [0..<nat (stop - a)]"
    using assms by (intro map_cong refl) (simp add: nat_add_distrib)
  also have "\<dots> = take (nat (stop - a)) (drop (nat a) xs)"
    using stop assms by (intro map_nth_shift) linarith
  also have "\<dots> = take (nat b - nat a) (drop (nat a) xs)"
  proof (cases "b \<le> int (length xs)")
    case True
    then have "stop = b" by (simp add: stop_def)
    with assms ab show ?thesis by (simp add: nat_diff_distrib)
  next
    case False
    then have "stop = int (length xs)" by (simp add: stop_def)
    with False assms have "length (drop (nat a) xs) \<le> nat (stop - a)"
      "length (drop (nat a) xs) \<le> nat b - nat a"
      by simp_all
    then show ?thesis by simp
  qed
  finally show ?thesis
    using True assms mina stop
    by (simp add: getitem_def slice_indices_def slice2_def slice_length_def stop_def)
next
  case False
  then have sl: "slice_length (min a (int (length xs))) (min b (int (length xs))) 1 = 0"
    by (auto simp: slice_length_def)
  from False assms have tk: "take (nat b - nat a) (drop (nat a) xs) = []"
    by (auto simp: min_def split: if_splits)
  from assms sl tk show ?thesis
    by (simp add: getitem_def slice_indices_def slice2_def Let_def)
qed

text \<open>
  C9. With no slice list, or an empty one, \<open>multislice_sequence\<close> returns the sequence
  as it is. A slice list is applied from the left, each slice to what the one before
  it gave: \<open>[slice(0,3), slice(1,2)]\<close> on \<open>[0,1,2,3,4,5]\<close> gives \<open>[0,1,2]\<close> and then
  \<open>[1]\<close>.
\<close>

theorem multislice_identity_and_order:
  "multislice_sequence xs None = Inr xs
   \<and> multislice_sequence xs (Some []) = Inr xs
   \<and> multislice_sequence xs (Some (sl # rest)) =
       (case getitem xs sl of
          Inl e \<Rightarrow> Inl e
        | Inr sliced \<Rightarrow> multislice_sequence sliced (Some rest))
   \<and> getitem [0, 1, 2, 3, 4, 5 :: int] (slice2 0 3) = Inr [0, 1, 2]
   \<and> getitem [0, 1, 2 :: int] (slice2 1 2) = Inr [1]
   \<and> multislice_sequence [0, 1, 2, 3, 4, 5 :: int] (Some [slice2 0 3, slice2 1 2]) = Inr [1]"
  by (simp add: multislice_sequence_def getitem_def slice_indices_def slice_length_def
      slice2_def upt_rec numeral_nat split: sum.splits)

end
